theory Spec2Isabelle
  imports Complex_Main
begin

section \<open>JavaScript values used by the map component\<close>

text \<open>
  The component of \<^verbatim>\<open>src/src/types/map.ts\<close> computes with JavaScript numbers, which are
  IEEE-754 binary64 values. A number is modelled as a finite double, given by its exact
  rational value, one of the two infinities, or NaN. The sign of zero is not represented.
  Every arithmetic result is rounded to the nearest double, ties to the even significand,
  and overflows to an infinity, as the standard prescribes.
\<close>

datatype number = Num rat | PosInf | NegInf | NaN

text \<open>
  The binade of a positive rational \<open>a\<close>: the largest power of two that is at most \<open>a\<close>,
  kept between the smallest normal binade \<^verbatim>\<open>2^-1022\<close> and the largest one
  \<^verbatim>\<open>2^1023\<close>. The search doubles or halves a power of two, starting from 1.
\<close>

fun binade_up :: "nat \<Rightarrow> rat \<Rightarrow> rat \<Rightarrow> rat" where
  "binade_up 0 p a = p"
| "binade_up (Suc n) p a = (if 2 * p \<le> a then binade_up n (2 * p) a else p)"

fun binade_down :: "nat \<Rightarrow> rat \<Rightarrow> rat \<Rightarrow> rat" where
  "binade_down 0 p a = p"
| "binade_down (Suc n) p a = (if a < p then binade_down n (p / 2) a else p)"

definition binade :: "rat \<Rightarrow> rat" where
  "binade a = (if 1 \<le> a then binade_up 1023 1 a else binade_down 1022 1 a)"

text \<open>Rounding a rational to the nearest integer, a tie going to the even one.\<close>

definition round_half_even :: "rat \<Rightarrow> int" where
  "round_half_even r =
     (let f = \<lfloor>r\<rfloor>; d = r - of_int f
      in if d < 1 / 2 then f else if 1 / 2 < d then f + 1 else if even f then f else f + 1)"

definition two_52 :: rat where
  "two_52 = 2 ^ 52"

definition two_1024 :: rat where
  "two_1024 = 2 ^ 1024"

text \<open>
  The double nearest to a rational. A double of binade \<open>p\<close> is a multiple of the quantum
  \<^verbatim>\<open>p / 2^52\<close> (53 significant bits; below the smallest normal binade the quantum stays
  \<^verbatim>\<open>2^-1074\<close>, which gives the subnormal numbers). A rounded magnitude of \<^verbatim>\<open>2^1024\<close> or
  more is an infinity, and zero is a double. A decimal literal of the source denotes the
  double nearest to it.
\<close>

definition round_double :: "rat \<Rightarrow> number" where
  "round_double x =
     (if x = 0 then Num 0
      else
        (let q = binade \<bar>x\<bar> / two_52;
             y = of_int (round_half_even (x / q)) * q
         in if two_1024 \<le> y then PosInf else if y \<le> - two_1024 then NegInf else Num y))"

text \<open>\<^verbatim>\<open>a + b\<close> on numbers: the exact sum of two finite doubles, rounded.\<close>

fun num_add :: "number \<Rightarrow> number \<Rightarrow> number" where
  "num_add NaN _ = NaN"
| "num_add _ NaN = NaN"
| "num_add PosInf NegInf = NaN"
| "num_add NegInf PosInf = NaN"
| "num_add PosInf _ = PosInf"
| "num_add _ PosInf = PosInf"
| "num_add NegInf _ = NegInf"
| "num_add _ NegInf = NegInf"
| "num_add (Num a) (Num b) = round_double (a + b)"

text \<open>
  \<^verbatim>\<open>x / xs.length\<close>: the divisor is an array length, a non-negative integer that is a
  double as it stands; the exact quotient is rounded. Division by the length zero gives
  NaN for \<^verbatim>\<open>0 / 0\<close> and a signed infinity otherwise.
\<close>

fun num_div_length :: "number \<Rightarrow> nat \<Rightarrow> number" where
  "num_div_length NaN n = NaN"
| "num_div_length PosInf n = PosInf"
| "num_div_length NegInf n = NegInf"
| "num_div_length (Num a) n =
     (if n = 0 then (if a = 0 then NaN else if 0 < a then PosInf else NegInf)
      else round_double (a / of_nat n))"

fun isNaN :: "number \<Rightarrow> bool" where
  "isNaN NaN = True"
| "isNaN _ = False"

text \<open>\<^verbatim>\<open>xs[i]\<close>: reading past the end of an array gives \<^verbatim>\<open>undefined\<close>, here \<open>None\<close>.\<close>

fun js_index :: "'a list \<Rightarrow> nat \<Rightarrow> 'a option" where
  "js_index [] i = None"
| "js_index (x # xs) 0 = Some x"
| "js_index (x # xs) (Suc i) = js_index xs i"

text \<open>An operand of \<^verbatim>\<open>+\<close> that is \<^verbatim>\<open>undefined\<close> converts to NaN.\<close>

fun to_number :: "number option \<Rightarrow> number" where
  "to_number None = NaN"
| "to_number (Some x) = x"

text \<open>
  A thrown value: an instance of \<^verbatim>\<open>Error\<close> with its message (a \<^verbatim>\<open>TypeError\<close> is one),
  or any other value.
\<close>

datatype exn = Error string | NonError

section \<open>Data model\<close>

text \<open>
  GeoJSON: a position is an array of numbers, a ring an array of positions, a polygon an
  array of rings whose first is the outer ring, and a multi-polygon an array of polygons.
\<close>

type_synonym position = "number list"
type_synonym ring = "position list"
type_synonym polygon = "ring list"

record MultiPolygon =
  coordinates :: "polygon list"

text \<open>
  The interface \<^verbatim>\<open>Abalone\<close> declares \<^verbatim>\<open>geom: GeoJSON.MultiPolygon\<close>, but the records are
  the rows of the view \<^verbatim>\<open>simplified_abalones\<close> as they arrive, and its column
  \<^verbatim>\<open>ST_Simplify(geom, 0.01)\<close> can be null; the click handler tests \<^verbatim>\<open>abalone.geom\<close>. The
  field is therefore optional here, \<open>None\<close> being a null geometry.
\<close>

record MapPoint =
  id_pt :: string
  name :: string
  description :: string
  coordinates_pt :: "number \<times> number"
  created_at :: string

record Abalone =
  gid :: int
  id_no :: int
  sci_name :: string
  presence :: int
  compiler :: string
  citation :: string
  geom :: "MultiPolygon option"
  created_at_opt :: "string option"

definition PAGE_SIZE :: nat where
  "PAGE_SIZE = 100"

section \<open>The geometry helper \<^verbatim>\<open>getMultiPolygonCenter\<close>\<close>

text \<open>
  \<^verbatim>\<open>geom.coordinates.flatMap(polygon => polygon[0])\<close>: the outer ring of each polygon,
  flattened by one level. A polygon with no ring yields \<^verbatim>\<open>undefined\<close>, which
  \<^verbatim>\<open>flatMap\<close> keeps as one element; it is \<open>None\<close> here.
\<close>

fun outer_ring_elems :: "polygon \<Rightarrow> position option list" where
  "outer_ring_elems [] = [None]"
| "outer_ring_elems (r # rs) = map Some r"

definition allCoords :: "MultiPolygon \<Rightarrow> position option list" where
  "allCoords g = concat (map outer_ring_elems (coordinates g))"

text \<open>
  \<^verbatim>\<open>allCoords.reduce((sum, coord) => sum + coord[i], acc)\<close>. Reading \<^verbatim>\<open>coord[i]\<close> of an
  \<^verbatim>\<open>undefined\<close> element throws a \<^verbatim>\<open>TypeError\<close>.
\<close>

fun reduce_sum :: "nat \<Rightarrow> number \<Rightarrow> position option list \<Rightarrow> exn + number" where
  "reduce_sum i acc [] = Inr acc"
| "reduce_sum i acc (None # cs) = Inl (Error ''Cannot read properties of undefined'')"
| "reduce_sum i acc (Some coord # cs) =
     reduce_sum i (num_add acc (to_number (js_index coord i))) cs"

definition fallback_center :: "number \<times> number" where
  "fallback_center = (round_double (- 122.4), round_double 37.8)"

text \<open>The body of the \<^verbatim>\<open>try\<close> block.\<close>

definition center_try :: "MultiPolygon \<Rightarrow> exn + (number \<times> number)" where
  "center_try g =
     (let cs = allCoords g in
      if length cs = 0 then Inl (Error ''No coordinates found in MultiPolygon'')
      else
        (case reduce_sum 0 (Num 0) cs of
          Inl e \<Rightarrow> Inl e
        | Inr sumX \<Rightarrow>
            (case reduce_sum 1 (Num 0) cs of
              Inl e \<Rightarrow> Inl e
            | Inr sumY \<Rightarrow>
                (let centerX = num_div_length sumX (length cs);
                     centerY = num_div_length sumY (length cs)
                 in if isNaN centerX \<or> isNaN centerY
                    then Inl (Error ''Invalid center coordinates calculated'')
                    else Inr (centerX, centerY)))))"

text \<open>
  The whole function: the \<^verbatim>\<open>catch\<close> block logs the error and returns the default
  position. The result is a sum so that "does not throw" is a statement about the function.
\<close>

definition getMultiPolygonCenter :: "MultiPolygon \<Rightarrow> exn + (number \<times> number)" where
  "getMultiPolygonCenter g =
     (case center_try g of
        Inl e \<Rightarrow> Inr fallback_center
      | Inr c \<Rightarrow> Inr c)"

section \<open>The view state of \<^verbatim>\<open>MapComponent\<close>\<close>

text \<open>The nine \<^verbatim>\<open>useState\<close> cells of the component, with their initial values.\<close>

record view_state =
  points :: "MapPoint list"
  abalones :: "Abalone list"
  selectedPoint :: "MapPoint option"
  selectedAbalone :: "Abalone option"
  selectedCoordinates :: "(number \<times> number) option"
  error :: "string option"
  loading :: bool
  loadingMore :: bool
  hasMore :: bool

definition initial_view :: view_state where
  "initial_view =
     \<lparr>points = [], abalones = [], selectedPoint = None, selectedAbalone = None,
      selectedCoordinates = None, error = None, loading = True, loadingMore = False,
      hasMore = True\<rparr>"

text \<open>
  The pagination sub-state of the specification, read off the two flags of the code:
  fetching while \<^verbatim>\<open>loadingMore\<close> is set, otherwise idle or exhausted by \<^verbatim>\<open>hasMore\<close>.
\<close>

datatype substate = idle | fetching | exhausted

definition pagination_substate :: "view_state \<Rightarrow> substate" where
  "pagination_substate st =
     (if loadingMore st then fetching else if hasMore st then idle else exhausted)"

subsection \<open>\<^verbatim>\<open>fetchAbalones\<close>\<close>

text \<open>What the awaited query resolves to: \<^verbatim>\<open>{ data, error: abalonesError, count }\<close>.\<close>

record abalones_response =
  data :: "Abalone list option"
  abalonesError :: "exn option"
  count :: "nat option"

text \<open>\<^verbatim>\<open>err instanceof Error ? err.message : fallback\<close>\<close>

fun error_message :: "exn \<Rightarrow> string \<Rightarrow> string" where
  "error_message (Error m) dflt = m"
| "error_message NonError dflt = dflt"

text \<open>The part of \<^verbatim>\<open>fetchAbalones\<close> before the \<^verbatim>\<open>await\<close>.\<close>

definition fetchAbalones_begin :: "view_state \<Rightarrow> view_state" where
  "fetchAbalones_begin st = st\<lparr>loadingMore := True\<rparr>"

text \<open>
  The part after the \<^verbatim>\<open>await\<close>, for the request that started at \<open>startIndex\<close>: the
  \<^verbatim>\<open>try\<close> block's remainder or the \<^verbatim>\<open>catch\<close> block, then the \<^verbatim>\<open>finally\<close> block.
  An array is truthy even when empty; a count is truthy when it is neither null nor zero.
\<close>

definition fetchAbalones_end :: "nat \<Rightarrow> abalones_response \<Rightarrow> view_state \<Rightarrow> view_state" where
  "fetchAbalones_end startIndex r st =
     (let st1 =
        (case abalonesError r of
           Some err \<Rightarrow> st\<lparr>error := Some (error_message err ''Failed to load abalone data'')\<rparr>
         | None \<Rightarrow>
             (case data r of
                None \<Rightarrow> st
              | Some page \<Rightarrow>
                  st\<lparr>abalones := abalones st @ page,
                     hasMore :=
                       (case count r of
                          None \<Rightarrow> False
                        | Some c \<Rightarrow> if c = 0 then False else startIndex + PAGE_SIZE < c)\<rparr>))
      in st1\<lparr>loadingMore := False\<rparr>)"

text \<open>One whole execution of \<^verbatim>\<open>fetchAbalones(startIndex)\<close> whose query resolves to \<open>r\<close>.\<close>

definition fetchAbalones :: "nat \<Rightarrow> abalones_response \<Rightarrow> view_state \<Rightarrow> view_state" where
  "fetchAbalones startIndex r st = fetchAbalones_end startIndex r (fetchAbalones_begin st)"

subsection \<open>The \<^verbatim>\<open>points_changes\<close> subscription handler\<close>

text \<open>
  A change notification, with what the handler reads of it: the new record of an insert
  or an update, the id of the old record of a delete.
\<close>

datatype payload = INSERT MapPoint | DELETE string | UPDATE MapPoint

fun points_changes :: "payload \<Rightarrow> MapPoint list \<Rightarrow> MapPoint list" where
  "points_changes (INSERT new) current = current @ [new]"
| "points_changes (DELETE old_id) current = filter (\<lambda>point. id_pt point \<noteq> old_id) current"
| "points_changes (UPDATE new) current =
     map (\<lambda>point. if id_pt point = id_pt new then new else point) current"

subsection \<open>Event handlers\<close>

text \<open>
  \<^verbatim>\<open>handleMapMove\<close>: the new state, and the start index of the page request it issues,
  if any.
\<close>

definition handleMapMove :: "view_state \<Rightarrow> view_state \<times> nat option" where
  "handleMapMove st =
     (if \<not> loadingMore st \<and> hasMore st
      then (fetchAbalones_begin st, Some (length (abalones st)))
      else (st, None))"

text \<open>A clicked map feature, with the property the handler reads.\<close>

record feature =
  properties_gid :: int

text \<open>
  \<^verbatim>\<open>handleMapClick\<close>; \<^verbatim>\<open>event.features\<close> may be undefined. The test
  \<^verbatim>\<open>abalone && abalone.geom\<close> holds when \<^verbatim>\<open>find\<close> returns a record and that record's
  geometry is not null; otherwise nothing is done.
\<close>

definition handleMapClick :: "feature list option \<Rightarrow> view_state \<Rightarrow> view_state" where
  "handleMapClick features st =
     (case features of
        Some (feature # rest) \<Rightarrow>
          (case find (\<lambda>a. gid a = properties_gid feature) (abalones st) of
             Some abalone \<Rightarrow>
               (case geom abalone of
                  Some g \<Rightarrow>
                    (case getMultiPolygonCenter g of
                       Inr center \<Rightarrow>
                         st\<lparr>selectedAbalone := Some abalone,
                            selectedCoordinates := Some center,
                            selectedPoint := None\<rparr>
                     | Inl e \<Rightarrow> st\<lparr>selectedAbalone := None, selectedCoordinates := None\<rparr>)
                | None \<Rightarrow> st)
           | None \<Rightarrow> st)
      | _ \<Rightarrow> st\<lparr>selectedAbalone := None, selectedCoordinates := None, selectedPoint := None\<rparr>)"

text \<open>The \<^verbatim>\<open>onClick\<close> of a point's marker, and the \<^verbatim>\<open>onClose\<close> of the two popups.\<close>

definition marker_onClick :: "MapPoint \<Rightarrow> view_state \<Rightarrow> view_state" where
  "marker_onClick point st =
     st\<lparr>selectedPoint := Some point, selectedAbalone := None, selectedCoordinates := None\<rparr>"

definition point_popup_onClose :: "view_state \<Rightarrow> view_state" where
  "point_popup_onClose st = st\<lparr>selectedPoint := None\<rparr>"

definition abalone_popup_onClose :: "view_state \<Rightarrow> view_state" where
  "abalone_popup_onClose st = st\<lparr>selectedAbalone := None, selectedCoordinates := None\<rparr>"

subsection \<open>Rendering and the user-interface events it admits\<close>

text \<open>
  \<^verbatim>\<open>if (error) return <error panel>\<close>: a non-empty error string is truthy, and the panel
  is then rendered instead of the map with its markers, popups and handlers.
\<close>

definition shows_error_panel :: "view_state \<Rightarrow> bool" where
  "shows_error_panel st = (case error st of None \<Rightarrow> False | Some m \<Rightarrow> m \<noteq> [])"

datatype ui_event =
    MoveEnd
  | ZoomEnd
  | MapClick "feature list option"
  | MarkerClick MapPoint
  | PointPopupClose
  | AbalonePopupClose

text \<open>
  A user-interface event reaches its handler only if the element carrying the handler is
  rendered: the map when no error panel is shown, a marker for each point of the
  collection, the point popup when a point is selected, the polygon popup when a polygon
  and its coordinates are selected.
\<close>

definition ui :: "ui_event \<Rightarrow> view_state \<Rightarrow> view_state \<times> nat option" where
  "ui ev st =
     (if shows_error_panel st then (st, None)
      else
        (case ev of
           MoveEnd \<Rightarrow> handleMapMove st
         | ZoomEnd \<Rightarrow> handleMapMove st
         | MapClick features \<Rightarrow> (handleMapClick features st, None)
         | MarkerClick point \<Rightarrow>
             (if point \<in> set (points st) then marker_onClick point st else st, None)
         | PointPopupClose \<Rightarrow>
             (if selectedPoint st \<noteq> None then point_popup_onClose st else st, None)
         | AbalonePopupClose \<Rightarrow>
             (if selectedAbalone st \<noteq> None \<and> selectedCoordinates st \<noteq> None
              then abalone_popup_onClose st else st, None)))"

section \<open>The component as a transition system\<close>

text \<open>
  The asynchronous parts of the component are the points query of \<^verbatim>\<open>fetchData\<close>, the page
  requests of \<^verbatim>\<open>fetchAbalones\<close> and the change notifications. The system state adds to
  the view state what is awaited: whether \<^verbatim>\<open>fetchData\<close> still awaits the points query, and
  the page requests that await their response, each with its start index and with whether
  \<^verbatim>\<open>fetchData\<close> issued it (it then clears \<^verbatim>\<open>loading\<close> afterwards). A handler is
  applied to the state at the time its event is delivered: the component is taken to have
  rendered between two events. Two viewport events delivered within one render, which
  both read the flags of that render, are outside this system.
\<close>

record points_response =
  pointsData :: "MapPoint list option"
  pointsError :: "exn option"

record system =
  view :: view_state
  points_pending :: bool
  inflight :: "(nat \<times> bool) list"

definition initial_system :: system where
  "initial_system = \<lparr>view = initial_view, points_pending = True, inflight = []\<rparr>"

datatype event =
    UI ui_event
  | PointsResponse points_response
  | AbalonesResponse nat abalones_response
  | Notification payload

text \<open>
  \<^verbatim>\<open>fetchData\<close> after its points query resolves: on an error the \<^verbatim>\<open>catch\<close> and
  \<^verbatim>\<open>finally\<close> blocks run; otherwise the points are stored and \<^verbatim>\<open>fetchAbalones(0)\<close> is
  called, with no test of the pagination flags.
\<close>

definition fetchData_points :: "points_response \<Rightarrow> system \<Rightarrow> system" where
  "fetchData_points r s =
     (case pointsError r of
        Some err \<Rightarrow>
          s\<lparr>view := (view s)\<lparr>error := Some (error_message err ''Failed to load data''),
                                loading := False\<rparr>,
            points_pending := False\<rparr>
      | None \<Rightarrow>
          s\<lparr>view := fetchAbalones_begin
                      ((view s)\<lparr>points := (case pointsData r of None \<Rightarrow> [] | Some ps \<Rightarrow> ps)\<rparr>),
            points_pending := False,
            inflight := inflight s @ [(0, True)]\<rparr>)"

text \<open>The response to the \<open>k\<close>-th awaited page request arrives.\<close>

definition abalones_arrive :: "nat \<Rightarrow> abalones_response \<Rightarrow> system \<Rightarrow> system" where
  "abalones_arrive k r s =
     (case js_index (inflight s) k of
        None \<Rightarrow> s
      | Some (startIndex, from_fetchData) \<Rightarrow>
          (let st = fetchAbalones_end startIndex r (view s)
           in s\<lparr>view := (if from_fetchData then st\<lparr>loading := False\<rparr> else st),
                inflight := take k (inflight s) @ drop (Suc k) (inflight s)\<rparr>))"

fun step :: "system \<Rightarrow> event \<Rightarrow> system" where
  "step s (UI ev) =
     (case ui ev (view s) of
        (st, None) \<Rightarrow> s\<lparr>view := st\<rparr>
      | (st, Some startIndex) \<Rightarrow>
          s\<lparr>view := st, inflight := inflight s @ [(startIndex, False)]\<rparr>)"
| "step s (PointsResponse r) = (if points_pending s then fetchData_points r s else s)"
| "step s (AbalonesResponse k r) = abalones_arrive k r s"
| "step s (Notification p) = s\<lparr>view := (view s)\<lparr>points := points_changes p (points (view s))\<rparr>\<rparr>"

definition run :: "event list \<Rightarrow> system" where
  "run evs = foldl step initial_system evs"

inductive reachable :: "system \<Rightarrow> bool" where
  reachable_initial: "reachable initial_system"
| reachable_step: "reachable s \<Longrightarrow> reachable (step s e)"

section \<open>Notions of the specification\<close>

text \<open>
  A position is numeric when it starts with a longitude and a latitude that are finite
  numbers. A multi-polygon is well formed when each polygon has an outer ring and the
  positions of the outer rings are numeric.
\<close>

fun numeric_position :: "position \<Rightarrow> bool" where
  "numeric_position (Num x # Num y # rest) = True"
| "numeric_position _ = False"

fun well_formed_polygon :: "polygon \<Rightarrow> bool" where
  "well_formed_polygon [] = False"
| "well_formed_polygon (r # rs) = list_all numeric_position r"

definition well_formed :: "MultiPolygon \<Rightarrow> bool" where
  "well_formed g = list_all well_formed_polygon (coordinates g)"

text \<open>
  The centroid as the specification words it: the outer ring of every polygon, all their
  positions in one sequence, the arithmetic mean of the longitudes and of the latitudes.
\<close>

fun outer_ring :: "polygon \<Rightarrow> ring" where
  "outer_ring [] = []"
| "outer_ring (r # rs) = r"

definition outer_vertices :: "MultiPolygon \<Rightarrow> position list" where
  "outer_vertices g = concat (map outer_ring (coordinates g))"

fun lon :: "position \<Rightarrow> rat" where
  "lon (Num x # rest) = x"
| "lon _ = 0"

fun lat :: "position \<Rightarrow> rat" where
  "lat (c # Num y # rest) = y"
| "lat _ = 0"

definition mean :: "rat list \<Rightarrow> rat" where
  "mean xs = sum_list xs / of_nat (length xs)"

text \<open>
  The mean in double arithmetic: the values are added from left to right, starting from
  0, each sum rounded, and the last sum is divided by the number of values and rounded
  once more. A rational is representable when it is a double, that is, when rounding
  leaves it as it is.
\<close>

definition double_sum :: "rat list \<Rightarrow> number" where
  "double_sum xs = foldl (\<lambda>s x. num_add s (Num x)) (Num 0) xs"

definition double_mean :: "rat list \<Rightarrow> number" where
  "double_mean xs = num_div_length (double_sum xs) (length xs)"

definition representable :: "rat \<Rightarrow> bool" where
  "representable r = (round_double r = Num r)"

text \<open>
  The sums met while adding a list from left to right, starting from \<open>a\<close>. The mean of a
  list is computed without rounding when these sums, starting from 0, and the mean
  itself are representable.
\<close>

fun partial_sums :: "rat \<Rightarrow> rat list \<Rightarrow> rat list" where
  "partial_sums a [] = []"
| "partial_sums a (x # xs) = (a + x) # partial_sums (a + x) xs"

definition computed_exactly :: "rat list \<Rightarrow> bool" where
  "computed_exactly xs =
     (list_all representable (partial_sums 0 xs) \<and> representable (mean xs))"

text \<open>
  The pagination sub-state after a successful page fetch as the specification words it:
  exhausted if the total count is known and offset plus page size reaches it, or if the
  page is empty; idle otherwise.
\<close>

definition spec_substate_after_success :: "nat \<Rightarrow> Abalone list \<Rightarrow> nat option \<Rightarrow> substate" where
  "spec_substate_after_success offset page totalCount =
     (if (case totalCount of None \<Rightarrow> False | Some c \<Rightarrow> c \<le> offset + PAGE_SIZE) \<or> page = []
      then exhausted else idle)"

text \<open>At most one selection: no point and polygon selected together.\<close>

definition one_selection :: "view_state \<Rightarrow> bool" where
  "one_selection st = (selectedPoint st = None \<or> selectedAbalone st = None)"

section \<open>Example data\<close>

text \<open>
  Two triangles, the first with an inner ring; the outer rings are those of the
  specification's centroid scenario.
\<close>

definition two_triangles :: MultiPolygon where
  "two_triangles =
     \<lparr>coordinates =
        [[[[Num 0, Num 0], [Num 2, Num 0], [Num 1, Num 2]], [[Num 9, Num 9]]],
         [[[Num 4, Num 0], [Num 6, Num 0], [Num 5, Num 2]]]]\<rparr>"

definition two_triangles_other_hole :: MultiPolygon where
  "two_triangles_other_hole =
     \<lparr>coordinates =
        [[[[Num 0, Num 0], [Num 2, Num 0], [Num 1, Num 2]]],
         [[[Num 4, Num 0], [Num 6, Num 0], [Num 5, Num 2]], [[Num 5, Num 1]]]]\<rparr>"

text \<open>
  One triangle whose positions are the doubles nearest to 0.1, 0.2 and 0.3, in both
  coordinates.
\<close>

definition tenths :: MultiPolygon where
  "tenths =
     \<lparr>coordinates =
        [[[[Num (3602879701896397 / 2 ^ 55), Num (3602879701896397 / 2 ^ 55)],
           [Num (3602879701896397 / 2 ^ 54), Num (3602879701896397 / 2 ^ 54)],
           [Num (5404319552844595 / 2 ^ 54), Num (5404319552844595 / 2 ^ 54)]]]]\<rparr>"

text \<open>
  Two positions whose longitude is \<^verbatim>\<open>2^1023\<close>, a double of the largest binade; their
  sum is beyond the largest double.
\<close>

definition two_1023 :: rat where
  "two_1023 = 2 ^ 1023"

definition huge :: MultiPolygon where
  "huge = \<lparr>coordinates = [[[[Num two_1023, Num 0], [Num two_1023, Num 0]]]]\<rparr>"

definition pier :: MapPoint where
  "pier = \<lparr>id_pt = ''p1'', name = ''Pier'', description = ''North pier'',
            coordinates_pt = (Num (- 122.5), Num 37.75), created_at = ''2025-01-20''\<rparr>"

definition pier_renamed :: MapPoint where
  "pier_renamed = pier\<lparr>name := ''Old pier''\<rparr>"

definition abalone42 :: Abalone where
  "abalone42 = \<lparr>gid = 42, id_no = 7, sci_name = ''Haliotis rufescens'', presence = 1,
                compiler = ''IUCN'', citation = ''IUCN 2021'', geom = Some two_triangles,
                created_at_opt = None\<rparr>"

text \<open>A record whose geometry is null, and a view that has loaded it.\<close>

definition abalone77 :: Abalone where
  "abalone77 = \<lparr>gid = 77, id_no = 8, sci_name = ''Haliotis sorenseni'', presence = 1,
                compiler = ''IUCN'', citation = ''IUCN 2021'', geom = None,
                created_at_opt = None\<rparr>"

definition ready_view :: view_state where
  "ready_view = initial_view\<lparr>abalones := [abalone42], loading := False\<rparr>"

definition points_ok :: points_response where
  "points_ok = \<lparr>pointsData = Some [pier], pointsError = None\<rparr>"

definition page_unknown_total :: abalones_response where
  "page_unknown_total = \<lparr>data = Some [abalone42], abalonesError = None, count = None\<rparr>"

definition page_of_250 :: abalones_response where
  "page_of_250 = \<lparr>data = Some [abalone42], abalonesError = None, count = Some 250\<rparr>"

definition page_of_50 :: abalones_response where
  "page_of_50 = \<lparr>data = Some [abalone42], abalonesError = None, count = Some 50\<rparr>"

definition failed_page :: abalones_response where
  "failed_page = \<lparr>data = None, abalonesError = Some (Error ''boom''), count = None\<rparr>"

text \<open>
  Degenerate geometries: no polygon at all, a polygon with no ring, and a position with
  a longitude only.
\<close>

definition no_polygons :: MultiPolygon where
  "no_polygons = \<lparr>coordinates = []\<rparr>"

definition no_rings :: MultiPolygon where
  "no_rings = \<lparr>coordinates = [[]]\<rparr>"

definition short_position :: MultiPolygon where
  "short_position = \<lparr>coordinates = [[[[Num 1]]]]\<rparr>"

text \<open>
  A clicked feature with a given gid; the view after the first page arrived and the pier
  marker was clicked; that view with the record of null geometry loaded as well; the
  view after a page request that started at index 1 failed.
\<close>

definition clicked :: "int \<Rightarrow> feature" where
  "clicked g = \<lparr>properties_gid = g\<rparr>"

definition pier_selected :: view_state where
  "pier_selected = marker_onClick pier ready_view"

definition pier_selected_null_geom :: view_state where
  "pier_selected_null_geom = pier_selected\<lparr>abalones := [abalone42, abalone77]\<rparr>"

definition after_failure :: view_state where
  "after_failure = fetchAbalones 1 failed_page ready_view"

text \<open>
  Event sequences: the points query answered; a viewport move before the points query
  is answered; after that overlap, the first page of 50 records answered to \<^verbatim>\<open>fetchData\<close>
  and then the failure of the request the viewport move issued; the pier marker clicked
  after the first page, and a click on the polygon with gid 42.
\<close>

definition scenario_first_page :: "event list" where
  "scenario_first_page = [PointsResponse points_ok]"

definition scenario_overlap :: "event list" where
  "scenario_overlap = [UI MoveEnd, PointsResponse points_ok]"

definition scenario_late_failure :: "event list" where
  "scenario_late_failure =
     [UI MoveEnd, PointsResponse points_ok, AbalonesResponse 1 page_of_50,
      AbalonesResponse 0 failed_page]"

definition scenario_point_selected :: "event list" where
  "scenario_point_selected =
     [PointsResponse points_ok, AbalonesResponse 0 page_of_250, UI (MarkerClick pier)]"

definition click_polygon_42 :: event where
  "click_polygon_42 = UI (MapClick (Some [clicked 42]))"

section \<open>Evaluating the rounding\<close>

lemma two_52_code [code]: "two_52 = 4503599627370496"
  by (simp add: two_52_def)

lemma two_1024_code [code]: "two_1024 = 179769313486231590772930519078902473361797697894230657273430081157732675805500963132708477322407536021120113879871393357658789768814416622492847430639474124377767893424865485276302219601246094119453082952085005768838150682342462881473913110540827237163350510684586298239947245938479716304835356329624224137216"
  by (simp add: two_1024_def)

lemma binade_up_exact: "0 < p \<Longrightarrow> p * 2 ^ n \<le> a \<Longrightarrow> binade_up n p a = p * 2 ^ n"
proof (induction n arbitrary: p)
  case 0
  show ?case by simp
next
  case (Suc n)
  have "(1::rat) \<le> 2 ^ n" by simp
  with Suc.prems(1) have "2 * p * 1 \<le> 2 * p * 2 ^ n"
    by (intro mult_left_mono) simp_all
  with Suc.prems(2) have le: "2 * p \<le> a" by simp
  from Suc.prems have "binade_up n (2 * p) a = 2 * p * 2 ^ n"
    by (intro Suc.IH) simp_all
  with le show ?case by simp
qed

lemma round_half_even_ge: "of_int m \<le> r \<Longrightarrow> m \<le> round_half_even r"
proof -
  assume "of_int m \<le> r"
  then have "m \<le> \<lfloor>r\<rfloor>" by (simp add: le_floor_iff)
  moreover have "\<lfloor>r\<rfloor> \<le> round_half_even r"
    by (simp add: round_half_even_def Let_def)
  ultimately show ?thesis by simp
qed

lemma round_half_even_of_int: "round_half_even (of_int m) = m"
  by (simp add: round_half_even_def Let_def)

lemma round_double_overflow:
  assumes "two_1024 \<le> x"
  shows "round_double x = PosInf"
proof -
  have p: "(2::rat) ^ 1024 = 2 ^ 1023 * 2" and p2: "(2::rat) ^ 1023 = 2 ^ 971 * 2 ^ 52"
    and p3: "(2::rat) ^ 1024 = 2 ^ 53 * 2 ^ 971"
    by (simp_all add: power_add [symmetric])
  from assms have x: "2 ^ 1024 \<le> x" by (simp add: two_1024_def)
  have "(1::rat) \<le> 2 ^ 1024" by (rule one_le_power) simp
  from this x have one: "1 \<le> x" by (rule order_trans)
  then have pos: "0 < x" by simp
  from x have "1 * 2 ^ 1023 \<le> x" by (simp add: p)
  then have b: "binade x = 2 ^ 1023"
    using one binade_up_exact [of 1 1023 x] by (simp add: binade_def)
  have q: "binade \<bar>x\<bar> / two_52 = 2 ^ 971"
    using pos by (simp add: b two_52_def p2)
  have "of_int (2 ^ 53) \<le> x / 2 ^ 971"
    using x by (simp add: p3 pos_le_divide_eq)
  then have "2 ^ 53 \<le> round_half_even (x / 2 ^ 971)" by (rule round_half_even_ge)
  then have "(of_int (2 ^ 53) :: rat) \<le> of_int (round_half_even (x / 2 ^ 971))"
    by (simp only: of_int_le_iff)
  then have "(2 ^ 53 :: rat) * 2 ^ 971 \<le> of_int (round_half_even (x / 2 ^ 971)) * 2 ^ 971"
    by (intro mult_right_mono) simp_all
  then have "two_1024 \<le> of_int (round_half_even (x / 2 ^ 971)) * 2 ^ 971"
    by (simp only: two_1024_def p3)
  with pos show ?thesis by (simp add: round_double_def Let_def b two_52_def)
qed


lemma round_double_top_binade:
  assumes lo: "2 ^ 1023 \<le> x" and hi: "x < two_1024" and m: "x = of_int m * 2 ^ 971"
  shows "round_double x = Num x"
proof -
  have p2: "(2::rat) ^ 1023 = 2 ^ 971 * 2 ^ 52"
    by (simp add: power_add [symmetric])
  have "(1::rat) \<le> 2 ^ 1023" by (rule one_le_power) simp
  from this lo have one: "1 \<le> x" by (rule order_trans)
  then have pos: "0 < x" by simp
  from lo have "1 * 2 ^ 1023 \<le> x" by simp
  then have b: "binade x = 2 ^ 1023"
    using one binade_up_exact [of 1 1023 x] by (simp add: binade_def)
  have d: "x / 2 ^ 971 = of_int m" by (simp add: m)
  have "of_int (round_half_even (x / 2 ^ 971)) * (2::rat) ^ 971 = of_int m * 2 ^ 971"
    by (simp only: d round_half_even_of_int)
  then have y: "of_int (round_half_even (x / 2 ^ 971)) * 2 ^ 971 = x"
    by (simp only: m [symmetric])
  have q: "binade \<bar>x\<bar> / two_52 = 2 ^ 971"
    using pos by (simp add: b two_52_def p2)
  from pos have ne: "x \<noteq> 0" and gt: "\<not> x \<le> - two_1024"
    by (simp_all add: two_1024_def)
  from hi have lt: "\<not> two_1024 \<le> x" by simp
  show ?thesis
    unfolding round_double_def Let_def q y using ne lt gt by (simp only: if_False)
qed

lemma round_double_two_1023: "round_double two_1023 = Num two_1023"
  unfolding two_1023_def
  by (rule round_double_top_binade [of _ "2 ^ 52"]) (simp_all add: two_1024_def)

lemma round_double_twice_two_1023: "round_double (2 * two_1023) = PosInf"
  by (rule round_double_overflow) (simp add: two_1024_def two_1023_def)

lemma round_double_not_NaN: "round_double x \<noteq> NaN"
  by (simp add: round_double_def Let_def)

lemma num_add_not_NaN: "s \<noteq> NaN \<Longrightarrow> num_add s (Num x) \<noteq> NaN"
  by (cases s) (simp_all add: round_double_not_NaN)

lemma num_div_length_not_NaN: "s \<noteq> NaN \<Longrightarrow> 0 < n \<Longrightarrow> num_div_length s n \<noteq> NaN"
  by (cases s) (simp_all add: round_double_not_NaN)

lemma isNaN_iff: "isNaN x \<longleftrightarrow> x = NaN"
  by (cases x) simp_all

lemma foldl_add_not_NaN:
  "s \<noteq> NaN \<Longrightarrow> foldl (\<lambda>s x. num_add s (Num x)) s xs \<noteq> NaN"
  by (induction xs arbitrary: s) (simp_all add: num_add_not_NaN)

lemma double_mean_not_NaN: "xs \<noteq> [] \<Longrightarrow> double_mean xs \<noteq> NaN"
  unfolding double_mean_def double_sum_def
  by (rule num_div_length_not_NaN) (simp_all add: foldl_add_not_NaN)

lemma foldl_add_exact:
  "list_all representable (partial_sums a xs) \<Longrightarrow>
   foldl (\<lambda>s x. num_add s (Num x)) (Num a) xs = Num (a + sum_list xs)"
proof (induction xs arbitrary: a)
  case Nil
  show ?case by simp
next
  case (Cons x xs)
  from Cons.prems have "representable (a + x)"
    and rest: "list_all representable (partial_sums (a + x) xs)"
    by simp_all
  then have r: "round_double (a + x) = Num (a + x)"
    by (simp add: representable_def)
  show ?case using Cons.IH [OF rest] by (simp add: r add.assoc)
qed

lemma double_mean_exact:
  assumes "computed_exactly xs" and "xs \<noteq> []"
  shows "double_mean xs = Num (mean xs)"
proof -
  from assms(1) have sums: "list_all representable (partial_sums 0 xs)"
    and m: "round_double (mean xs) = Num (mean xs)"
    by (simp_all add: computed_exactly_def representable_def)
  have "double_sum xs = Num (sum_list xs)"
    using foldl_add_exact [OF sums] by (simp add: double_sum_def)
  with assms(2) m show ?thesis by (simp add: double_mean_def mean_def)
qed

section \<open>The centroid\<close>

lemma allCoords_well_formed:
  "well_formed g \<Longrightarrow> allCoords g = map Some (outer_vertices g)"
proof -
  have "list_all well_formed_polygon ps \<Longrightarrow>
      concat (map outer_ring_elems ps) = map Some (concat (map outer_ring ps))" for ps
  proof (induction ps)
    case Nil
    show ?case by simp
  next
    case (Cons p ps)
    then show ?case by (cases p) simp_all
  qed
  then show "well_formed g \<Longrightarrow> allCoords g = map Some (outer_vertices g)"
    by (simp add: well_formed_def allCoords_def outer_vertices_def)
qed

lemma numeric_outer_vertices:
  "well_formed g \<Longrightarrow> list_all numeric_position (outer_vertices g)"
proof -
  have "list_all well_formed_polygon ps \<Longrightarrow>
      list_all numeric_position (concat (map outer_ring ps))" for ps
  proof (induction ps)
    case Nil
    show ?case by simp
  next
    case (Cons p ps)
    then show ?case by (cases p) simp_all
  qed
  then show "well_formed g \<Longrightarrow> list_all numeric_position (outer_vertices g)"
    by (simp add: well_formed_def outer_vertices_def)
qed

lemma numeric_position_cases:
  assumes "numeric_position p"
  obtains x y rest where "p = Num x # Num y # rest"
  using assms by (cases p rule: numeric_position.cases) simp_all

lemma reduce_sum_lon:
  "list_all numeric_position vs \<Longrightarrow>
   reduce_sum 0 acc (map Some vs) = Inr (foldl (\<lambda>s x. num_add s (Num x)) acc (map lon vs))"
proof (induction vs arbitrary: acc)
  case Nil
  show ?case by simp
next
  case (Cons v vs)
  from Cons.prems have "numeric_position v" and rest: "list_all numeric_position vs"
    by simp_all
  then obtain x y r where v: "v = Num x # Num y # r"
    by (auto elim: numeric_position_cases)
  show ?case using Cons.IH [OF rest, of "num_add acc (Num x)"] by (simp add: v)
qed

lemma reduce_sum_lat:
  "list_all numeric_position vs \<Longrightarrow>
   reduce_sum 1 acc (map Some vs) = Inr (foldl (\<lambda>s x. num_add s (Num x)) acc (map lat vs))"
proof (induction vs arbitrary: acc)
  case Nil
  show ?case by simp
next
  case (Cons v vs)
  from Cons.prems have "numeric_position v" and rest: "list_all numeric_position vs"
    by simp_all
  then obtain x y r where v: "v = Num x # Num y # r"
    by (auto elim: numeric_position_cases)
  show ?case using Cons.IH [OF rest, of "num_add acc (Num y)"] by (simp add: v)
qed

lemma center_of_well_formed:
  assumes wf: "well_formed g" and ne: "outer_vertices g \<noteq> []"
  shows "getMultiPolygonCenter g =
           Inr (double_mean (map lon (outer_vertices g)),
                double_mean (map lat (outer_vertices g)))"
proof -
  let ?vs = "outer_vertices g"
  have cs: "allCoords g = map Some ?vs" by (rule allCoords_well_formed [OF wf])
  have num: "list_all numeric_position ?vs" by (rule numeric_outer_vertices [OF wf])
  have sx: "reduce_sum 0 (Num 0) (map Some ?vs) = Inr (double_sum (map lon ?vs))"
    using reduce_sum_lon [OF num, of "Num 0"] by (simp add: double_sum_def)
  have sy: "reduce_sum (Suc 0) (Num 0) (map Some ?vs) = Inr (double_sum (map lat ?vs))"
    using reduce_sum_lat [OF num, of "Num 0"] by (simp add: double_sum_def)
  from ne have len: "length ?vs \<noteq> 0" by simp
  from ne have nx: "\<not> isNaN (double_mean (map lon ?vs))"
    and ny: "\<not> isNaN (double_mean (map lat ?vs))"
    by (simp_all add: isNaN_iff double_mean_not_NaN)
  have "center_try g = Inr (double_mean (map lon ?vs), double_mean (map lat ?vs))"
    using len nx ny by (simp add: center_try_def cs sx sy double_mean_def Let_def)
  then show ?thesis by (simp add: getMultiPolygonCenter_def)
qed

text \<open>
  Claim C7 as stated fails on double arithmetic. The outer ring holds the doubles nearest
  to 0.1, 0.2 and 0.3. The code adds them from left to right and divides by 3, rounding
  each time, and returns \<^verbatim>\<open>0.20000000000000004\<close>, the double
  \<^verbatim>\<open>7205759403792795 / 2^55\<close>. The arithmetic mean of the three doubles is
  \<^verbatim>\<open>21617278211378381 / (3 * 2^55)\<close>, and even the double nearest to it is another one,
  \<^verbatim>\<open>7205759403792794 / 2^55\<close>.
\<close>

theorem center_rounding_counterexample:
  "well_formed tenths \<and> outer_vertices tenths \<noteq> [] \<and>
   getMultiPolygonCenter tenths =
     Inr (Num (7205759403792795 / 2 ^ 55), Num (7205759403792795 / 2 ^ 55)) \<and>
   mean (map lon (outer_vertices tenths)) = 21617278211378381 / (3 * 2 ^ 55) \<and>
   mean (map lat (outer_vertices tenths)) = 21617278211378381 / (3 * 2 ^ 55) \<and>
   round_double (mean (map lon (outer_vertices tenths))) = Num (7205759403792794 / 2 ^ 55) \<and>
   round_double (1 / 10) = Num (3602879701896397 / 2 ^ 55) \<and>
   round_double (2 / 10) = Num (3602879701896397 / 2 ^ 54) \<and>
   round_double (3 / 10) = Num (5404319552844595 / 2 ^ 54) \<and>
   getMultiPolygonCenter tenths \<noteq>
     Inr (Num (mean (map lon (outer_vertices tenths))),
          Num (mean (map lat (outer_vertices tenths))))"
  by code_simp

text \<open>
  Claim C7, amended. For every well-formed multi-polygon with at least one position
  across the outer rings of its polygons, \<^verbatim>\<open>getMultiPolygonCenter\<close> returns the pair of
  the mean of the longitudes and the mean of the latitudes of all outer-ring positions,
  taken in one sequence and computed in double arithmetic: the values are added from
  left to right, each sum rounded to a double (or an infinity on overflow), and the last
  sum is divided by the number of positions and rounded. Neither mean is NaN, so the
  result is this pair and not the fallback of the \<^verbatim>\<open>catch\<close> block.
  Inner rings do not enter the result: a well-formed multi-polygon with the same outer
  rings has the same center. Where the sums and the mean of a coordinate are
  representable, the result for that coordinate is the arithmetic mean exactly.
\<close>

theorem center_is_double_mean:
  assumes wf: "well_formed g" and ne: "outer_vertices g \<noteq> []"
  shows "getMultiPolygonCenter g =
           Inr (double_mean (map lon (outer_vertices g)),
                double_mean (map lat (outer_vertices g))) \<and>
         double_mean (map lon (outer_vertices g)) \<noteq> NaN \<and>
         double_mean (map lat (outer_vertices g)) \<noteq> NaN \<and>
         (well_formed g' \<and> map outer_ring (coordinates g') = map outer_ring (coordinates g)
            \<longrightarrow> getMultiPolygonCenter g' = getMultiPolygonCenter g) \<and>
         (computed_exactly (map lon (outer_vertices g))
            \<longrightarrow> double_mean (map lon (outer_vertices g)) =
                  Num (mean (map lon (outer_vertices g)))) \<and>
         (computed_exactly (map lat (outer_vertices g))
            \<longrightarrow> double_mean (map lat (outer_vertices g)) =
                  Num (mean (map lat (outer_vertices g))))"
proof (intro conjI impI)
  show "getMultiPolygonCenter g =
           Inr (double_mean (map lon (outer_vertices g)),
                double_mean (map lat (outer_vertices g)))"
    by (rule center_of_well_formed [OF wf ne])
next
  from ne show "double_mean (map lon (outer_vertices g)) \<noteq> NaN"
    by (simp add: double_mean_not_NaN)
next
  from ne show "double_mean (map lat (outer_vertices g)) \<noteq> NaN"
    by (simp add: double_mean_not_NaN)
next
  assume same: "well_formed g' \<and>
      map outer_ring (coordinates g') = map outer_ring (coordinates g)"
  then have vs: "outer_vertices g' = outer_vertices g"
    by (simp add: outer_vertices_def)
  with same ne center_of_well_formed [of g'] center_of_well_formed [OF wf ne]
  show "getMultiPolygonCenter g' = getMultiPolygonCenter g" by simp
next
  assume "computed_exactly (map lon (outer_vertices g))"
  with ne show "double_mean (map lon (outer_vertices g)) =
      Num (mean (map lon (outer_vertices g)))"
    by (simp add: double_mean_exact)
next
  assume "computed_exactly (map lat (outer_vertices g))"
  with ne show "double_mean (map lat (outer_vertices g)) =
      Num (mean (map lat (outer_vertices g)))"
    by (simp add: double_mean_exact)
qed

text \<open>
  Witness for C7: the two triangles of the specification's scenario, once with an inner
  ring in the first polygon and once with an inner ring in the second. The mean
  longitude 3 is computed exactly; the mean latitude is the double nearest to 2/3.
\<close>

theorem center_is_double_mean_witness:
  "well_formed two_triangles \<and> outer_vertices two_triangles \<noteq> [] \<and>
   getMultiPolygonCenter two_triangles =
     Inr (Num 3, Num (6004799503160661 / 9007199254740992)) \<and>
   getMultiPolygonCenter two_triangles_other_hole =
     Inr (Num 3, Num (6004799503160661 / 9007199254740992)) \<and>
   mean (map lon (outer_vertices two_triangles)) = 3 \<and>
   round_double (2 / 3) = Num (6004799503160661 / 9007199254740992)"
proof -
  have wf: "well_formed two_triangles" by code_simp
  have ne: "outer_vertices two_triangles \<noteq> []" by code_simp
  have ex: "computed_exactly (map lon (outer_vertices two_triangles))" by code_simp
  have m: "mean (map lon (outer_vertices two_triangles)) = 3" by code_simp
  have y: "double_mean (map lat (outer_vertices two_triangles)) =
      Num (6004799503160661 / 9007199254740992)" by code_simp
  have r: "round_double (2 / 3) = Num (6004799503160661 / 9007199254740992)" by code_simp
  have same: "well_formed two_triangles_other_hole \<and>
      map outer_ring (coordinates two_triangles_other_hole) =
      map outer_ring (coordinates two_triangles)"
    by code_simp
  note t = center_is_double_mean [OF wf ne, of two_triangles_other_hole]
  from t ex m have x: "double_mean (map lon (outer_vertices two_triangles)) = Num 3"
    by simp
  from t x y have 1: "getMultiPolygonCenter two_triangles =
      Inr (Num 3, Num (6004799503160661 / 9007199254740992))"
    by simp
  from t same 1 have 2: "getMultiPolygonCenter two_triangles_other_hole =
      Inr (Num 3, Num (6004799503160661 / 9007199254740992))"
    by simp
  from wf ne 1 2 m r show ?thesis by blast
qed

text \<open>
  Overflow: the two longitudes \<^verbatim>\<open>2^1023\<close> are doubles, their sum rounds to infinity, and
  the returned longitude is infinite where the arithmetic mean is \<^verbatim>\<open>2^1023\<close>.
\<close>

lemma center_overflow:
  "getMultiPolygonCenter huge = Inr (PosInf, Num 0) \<and>
   mean (map lon (outer_vertices huge)) = two_1023 \<and>
   well_formed huge"
proof -
  have z: "round_double 0 = Num 0" by (simp add: round_double_def)
  have sx: "reduce_sum 0 (Num 0) (allCoords huge) = Inr PosInf"
    by (simp add: allCoords_def huge_def round_double_two_1023 round_double_twice_two_1023)
  have sy: "reduce_sum (Suc 0) (Num 0) (allCoords huge) = Inr (Num 0)"
    by (simp add: allCoords_def huge_def z)
  have len: "length (allCoords huge) = 2" by (simp add: allCoords_def huge_def)
  from len have ne: "allCoords huge \<noteq> []" by auto
  have "center_try huge = Inr (PosInf, Num 0)"
    by (simp add: center_try_def sx sy len ne z Let_def)
  then have 1: "getMultiPolygonCenter huge = Inr (PosInf, Num 0)"
    by (simp add: getMultiPolygonCenter_def)
  have 2: "mean (map lon (outer_vertices huge)) = two_1023"
    by (simp add: mean_def outer_vertices_def huge_def)
  have 3: "well_formed huge" by (simp add: well_formed_def huge_def)
  from 1 2 3 show ?thesis by blast
qed

lemma center_total: "\<exists>c. getMultiPolygonCenter g = Inr c"
  by (cases "center_try g") (simp_all add: getMultiPolygonCenter_def)

text \<open>
  Claim C8. For every input the call returns a position and does not throw. When no
  element comes out of the outer rings, when the mean of the longitudes or of the
  latitudes is NaN, and when the body of the \<^verbatim>\<open>try\<close> block throws for any other reason
  (a polygon with no ring), the result is the fixed fallback position.
\<close>

theorem center_never_throws:
  "(\<exists>c. getMultiPolygonCenter g = Inr c) \<and>
   (allCoords g = [] \<longrightarrow> getMultiPolygonCenter g = Inr fallback_center) \<and>
   (reduce_sum 0 (Num 0) (allCoords g) = Inr sumX \<and>
    reduce_sum 1 (Num 0) (allCoords g) = Inr sumY \<and>
    (isNaN (num_div_length sumX (length (allCoords g))) \<or>
     isNaN (num_div_length sumY (length (allCoords g))))
      \<longrightarrow> getMultiPolygonCenter g = Inr fallback_center) \<and>
   (center_try g = Inl e \<longrightarrow> getMultiPolygonCenter g = Inr fallback_center)"
proof -
  have "\<exists>c. getMultiPolygonCenter g = Inr c"
    by (rule center_total)
  moreover have "allCoords g = [] \<longrightarrow> getMultiPolygonCenter g = Inr fallback_center"
    by (simp add: getMultiPolygonCenter_def center_try_def)
  moreover have "reduce_sum 0 (Num 0) (allCoords g) = Inr sumX \<and>
    reduce_sum 1 (Num 0) (allCoords g) = Inr sumY \<and>
    (isNaN (num_div_length sumX (length (allCoords g))) \<or>
     isNaN (num_div_length sumY (length (allCoords g))))
      \<longrightarrow> getMultiPolygonCenter g = Inr fallback_center"
    by (simp add: getMultiPolygonCenter_def center_try_def Let_def)
  moreover have "center_try g = Inl e \<longrightarrow> getMultiPolygonCenter g = Inr fallback_center"
    by (simp add: getMultiPolygonCenter_def)
  ultimately show ?thesis by blast
qed

text \<open>
  Witness for C8: a multi-polygon with no polygon, one whose only position lacks a
  latitude (the mean of the latitudes is NaN), and one whose polygon has no ring.
\<close>

theorem center_never_throws_witness:
  "getMultiPolygonCenter no_polygons = Inr fallback_center \<and>
   getMultiPolygonCenter short_position = Inr fallback_center \<and>
   getMultiPolygonCenter no_rings = Inr fallback_center"
proof -
  have 1: "allCoords no_polygons = []" by code_simp
  have 2: "reduce_sum 0 (Num 0) (allCoords short_position) = Inr (Num 1)" by code_simp
  have 3: "reduce_sum 1 (Num 0) (allCoords short_position) = Inr NaN" by code_simp
  have 4: "isNaN (num_div_length NaN (length (allCoords short_position)))" by simp
  have 5: "center_try no_rings = Inl (Error ''Cannot read properties of undefined'')"
    by code_simp
  from center_never_throws [of no_polygons] 1
  have a: "getMultiPolygonCenter no_polygons = Inr fallback_center" by blast
  from center_never_throws [of short_position "Num 1" NaN] 2 3 4
  have b: "getMultiPolygonCenter short_position = Inr fallback_center" by blast
  from center_never_throws [of no_rings _ _ "Error ''Cannot read properties of undefined''"] 5
  have c: "getMultiPolygonCenter no_rings = Inr fallback_center" by blast
  from a b c show ?thesis by blast
qed

section \<open>Change notifications\<close>

text \<open>
  Claim C1 as stated fails: the collection holds one point with id \<^verbatim>\<open>p1\<close>, and an
  insert notification carries a record with the same id. The claim asks for an update in
  place, the length staying 1 and no duplicate id; the handler appends, the length
  becomes 2 and the id occurs twice.
\<close>

theorem insert_duplicates_counterexample:
  "length (points_changes (INSERT pier_renamed) [pier]) = 2 \<and>
   map id_pt (points_changes (INSERT pier_renamed) [pier]) = [''p1'', ''p1'']"
  by code_simp

text \<open>
  Claim C1, amended. Applying an insert notification appends the record to the
  collection, whether or not a point with that id is present; the length grows by one.
  If no point with that id is present, distinct ids stay distinct. If a point with that
  id is present, the id occurs twice afterwards.
\<close>

theorem insert_appends:
  "points (view (step s (Notification (INSERT p)))) = points (view s) @ [p] \<and>
   points_changes (INSERT p) ps = ps @ [p] \<and>
   length (points_changes (INSERT p) ps) = Suc (length ps) \<and>
   (id_pt p \<notin> id_pt ` set ps \<and> distinct (map id_pt ps)
      \<longrightarrow> distinct (map id_pt (points_changes (INSERT p) ps))) \<and>
   (id_pt p \<in> id_pt ` set ps \<longrightarrow> \<not> distinct (map id_pt (points_changes (INSERT p) ps)))"
  by auto

text \<open>
  Witness for C1: the insert into the empty collection, and the insert of a record
  whose id is present.
\<close>

theorem insert_appends_witness:
  "points_changes (INSERT pier) [] = [pier] \<and>
   distinct (map id_pt (points_changes (INSERT pier) [])) \<and>
   \<not> distinct (map id_pt (points_changes (INSERT pier_renamed) [pier]))"
proof -
  have a: "id_pt pier \<notin> id_pt ` set [] \<and> distinct (map id_pt [])" by simp
  have b: "id_pt pier_renamed \<in> id_pt ` set [pier]" by code_simp
  from insert_appends [of _ pier "[]"] a
  have 1: "points_changes (INSERT pier) [] = [pier] \<and>
      distinct (map id_pt (points_changes (INSERT pier) []))" by simp
  from insert_appends [of _ pier_renamed "[pier]"] b
  have 2: "\<not> distinct (map id_pt (points_changes (INSERT pier_renamed) [pier]))" by blast
  from 1 2 show ?thesis by blast
qed

text \<open>
  Claim C4 as stated fails: an update notification for an id that is not in the (empty)
  collection leaves the collection empty; the claim asks for the record to be appended.
\<close>

theorem update_absent_counterexample:
  "points_changes (UPDATE pier) [] = [] \<and> points_changes (UPDATE pier) [] \<noteq> [pier]"
  by simp

lemma update_absent: "id_pt p \<notin> id_pt ` set ps \<Longrightarrow> points_changes (UPDATE p) ps = ps"
  by (induction ps) auto

text \<open>
  Claim C4, amended. Applying an update notification keeps the length and the order of
  the collection and replaces every record with the notification's id by the new
  record; the other records stay. If no point with that id is present, the collection
  is unchanged.
\<close>

theorem update_replaces_or_ignores:
  "length (points_changes (UPDATE p) ps) = length ps \<and>
   (\<forall>i < length ps.
      points_changes (UPDATE p) ps ! i = (if id_pt (ps ! i) = id_pt p then p else ps ! i)) \<and>
   (id_pt p \<notin> id_pt ` set ps \<longrightarrow> points_changes (UPDATE p) ps = ps) \<and>
   points (view (step s (Notification (UPDATE p)))) = points_changes (UPDATE p) (points (view s))"
  using update_absent [of p ps] by simp

text \<open>
  Witness for C4: an update that replaces the only record, and an update of the empty
  collection.
\<close>

theorem update_replaces_or_ignores_witness:
  "points_changes (UPDATE pier_renamed) [pier] ! 0 = pier_renamed \<and>
   length (points_changes (UPDATE pier_renamed) [pier]) = 1 \<and>
   points_changes (UPDATE pier_renamed) [] = []"
proof -
  have i: "id_pt ([pier] ! 0) = id_pt pier_renamed" by code_simp
  have n: "id_pt pier_renamed \<notin> id_pt ` set []" by simp
  from update_replaces_or_ignores [of pier_renamed "[pier]"] i
  have 1: "points_changes (UPDATE pier_renamed) [pier] ! 0 = pier_renamed \<and>
      length (points_changes (UPDATE pier_renamed) [pier]) = 1"
    by simp
  from update_replaces_or_ignores [of pier_renamed "[]"] n
  have 2: "points_changes (UPDATE pier_renamed) [] = []" by blast
  from 1 2 show ?thesis by blast
qed

section \<open>Runs of the component\<close>

lemma reachable_foldl: "reachable s \<Longrightarrow> reachable (foldl step s evs)"
  by (induction evs arbitrary: s) (simp_all add: reachable_step)

lemma reachable_run: "reachable (run evs)"
  unfolding run_def by (rule reachable_foldl [OF reachable_initial])

lemma run_snoc: "run (evs @ [e]) = step (run evs) e"
  by (simp add: run_def)

section \<open>The page fetch\<close>

text \<open>
  Claim C2 as stated fails: the fetch at offset 0 succeeds with a non-empty page and no
  total count. The claim asks for the sub-state idle; the code sets \<^verbatim>\<open>hasMore\<close> to false,
  so the sub-state is exhausted.
\<close>

theorem unknown_total_counterexample:
  "pagination_substate (fetchAbalones 0 page_unknown_total initial_view) = exhausted \<and>
   spec_substate_after_success 0 [abalone42] None = idle"
  by code_simp

text \<open>
  Claim C2, amended. After a successful fetch that returned a page: if the total count
  is known, the sub-state is idle when start index plus page size is below the count and
  exhausted otherwise; if the total count is not known, the sub-state is exhausted.
  Whether the page is empty is not consulted. When the total count is known and the page
  is not empty this is the sub-state the specification words.
\<close>

theorem substate_after_success:
  assumes "abalonesError r = None" and "data r = Some page"
  shows "pagination_substate (fetchAbalones startIndex r st) =
           (case count r of
              None \<Rightarrow> exhausted
            | Some c \<Rightarrow> if startIndex + PAGE_SIZE < c then idle else exhausted) \<and>
         (count r \<noteq> None \<and> page \<noteq> [] \<longrightarrow>
            pagination_substate (fetchAbalones startIndex r st) =
              spec_substate_after_success startIndex page (count r))"
  using assms
  by (auto simp: pagination_substate_def fetchAbalones_def fetchAbalones_begin_def
      fetchAbalones_end_def spec_substate_after_success_def PAGE_SIZE_def
      split: option.splits)

text \<open>
  Witness for C2: with 250 records in total, the fetch at offset 0 ends idle and the
  fetch at offset 200 ends exhausted.
\<close>

theorem substate_after_success_witness:
  "pagination_substate (fetchAbalones 0 page_of_250 initial_view) = idle \<and>
   pagination_substate (fetchAbalones 200 page_of_250 initial_view) = exhausted \<and>
   spec_substate_after_success 200 [abalone42] (count page_of_250) = exhausted"
proof -
  have e: "abalonesError page_of_250 = None" and d: "data page_of_250 = Some [abalone42]"
    by (simp_all add: page_of_250_def)
  have c0: "(case count page_of_250 of None \<Rightarrow> exhausted
      | Some c \<Rightarrow> if 0 + PAGE_SIZE < c then idle else exhausted) = idle"
    by code_simp
  have c200: "(case count page_of_250 of None \<Rightarrow> exhausted
      | Some c \<Rightarrow> if 200 + PAGE_SIZE < c then idle else exhausted) = exhausted"
    by code_simp
  have ne: "count page_of_250 \<noteq> None \<and> [abalone42] \<noteq> []"
    by (simp add: page_of_250_def)
  from substate_after_success [OF e d, of 0 initial_view] c0
  have 1: "pagination_substate (fetchAbalones 0 page_of_250 initial_view) = idle"
    by metis
  from substate_after_success [OF e d, of 200 initial_view] c200 ne
  have 2: "pagination_substate (fetchAbalones 200 page_of_250 initial_view) = exhausted"
    and 3: "pagination_substate (fetchAbalones 200 page_of_250 initial_view) =
      spec_substate_after_success 200 [abalone42] (count page_of_250)"
    by metis+
  from 1 2 3 show ?thesis by metis
qed

lemma ui_error_panel: "shows_error_panel st \<Longrightarrow> ui ev st = (st, None)"
  by (simp add: ui_def)

lemma ui_error: "error (fst (ui ev st)) = error st"
proof (cases "shows_error_panel st")
  case True
  then show ?thesis by (simp add: ui_def)
next
  case False
  show ?thesis
  proof (cases ev)
    case (MapClick fs)
    have "error (handleMapClick fs st) = error st"
      by (simp add: handleMapClick_def split: option.splits list.splits sum.splits)
    with False MapClick show ?thesis by (simp add: ui_def)
  qed (use False in \<open>simp_all add: ui_def handleMapMove_def fetchAbalones_begin_def
        marker_onClick_def point_popup_onClose_def abalone_popup_onClose_def\<close>)
qed

lemma step_error_persists:
  assumes "error (view s) \<noteq> None"
  shows "error (view (step s e)) \<noteq> None"
proof (cases e)
  case (UI ev)
  obtain st r where u: "ui ev (view s) = (st, r)" by (cases "ui ev (view s)")
  have "view (step s e) = st" using UI u by (cases r) simp_all
  with ui_error [of ev "view s"] u assms show ?thesis by simp
next
  case (PointsResponse r)
  with assms show ?thesis
    by (simp add: fetchData_points_def fetchAbalones_begin_def split: option.splits)
next
  case (AbalonesResponse k r)
  with assms show ?thesis
    by (simp add: abalones_arrive_def fetchAbalones_end_def Let_def split: option.splits)
next
  case (Notification p)
  with assms show ?thesis by simp
qed

lemma js_index_Some: "js_index xs k = Some x \<Longrightarrow> k < length xs"
  by (induction xs k rule: js_index.induct) simp_all

lemma js_index_None: "js_index xs k = None \<longleftrightarrow> length xs \<le> k"
  by (induction xs k rule: js_index.induct) simp_all

lemma fetchAbalones_end_failed:
  assumes "abalonesError r = Some err"
  shows "fetchAbalones_end startIndex r st =
           st\<lparr>error := Some (error_message err ''Failed to load abalone data''),
              loadingMore := False\<rparr>"
  using assms by (simp add: fetchAbalones_end_def)

lemma abalones_arrive_failed:
  assumes "js_index (inflight s) k = Some (startIndex, b)" and "abalonesError r = Some err"
  shows "abalones (view (abalones_arrive k r s)) = abalones (view s) \<and>
         hasMore (view (abalones_arrive k r s)) = hasMore (view s) \<and>
         loadingMore (view (abalones_arrive k r s)) = False \<and>
         error (view (abalones_arrive k r s)) =
           Some (error_message err ''Failed to load abalone data'')"
  using assms by (simp add: abalones_arrive_def fetchAbalones_end_failed Let_def)

text \<open>
  Claim C3 as stated fails. With one polygon loaded, a viewport move issues the page
  request at index 1. After that request fails with the message \<^verbatim>\<open>boom\<close>, the error
  panel is rendered instead of the map, and neither a move nor a zoom of the viewport
  issues a page request: the failure does block later pagination. The sub-state need not
  return to idle either: when the request a viewport move issued overlaps the first page
  of \<^verbatim>\<open>fetchData\<close>, and that page (all 50 records) arrives first, the failure of the
  request leaves the sub-state exhausted.
\<close>

theorem failure_blocks_paging_counterexample:
  "snd (ui MoveEnd ready_view) = Some 1 \<and>
   error after_failure = Some ''boom'' \<and>
   shows_error_panel after_failure \<and>
   ui MoveEnd after_failure = (after_failure, None) \<and>
   ui ZoomEnd after_failure = (after_failure, None) \<and>
   inflight (run (take 2 scenario_late_failure)) = [(0, False), (0, True)] \<and>
   hasMore (view (run (take 2 scenario_late_failure))) \<and>
   pagination_substate (view (run scenario_late_failure)) = exhausted"
  by code_simp

text \<open>
  Claim C3, amended. When a page fetch fails, the handler of the response clears
  \<^verbatim>\<open>loadingMore\<close>, leaves \<^verbatim>\<open>hasMore\<close> and the polygon collection as they are when the
  response arrives, and stores the error message. The sub-state after the failure is
  therefore idle if \<^verbatim>\<open>hasMore\<close> is set when the response arrives, and exhausted
  otherwise; this holds for the fetch run as a whole, for the handler of the response,
  and for the response to any awaited request in the transition system. If the message
  is not empty, the error panel is rendered in the state after the failure. In every
  state in which the error panel is rendered no user-interface event has an effect, so
  no viewport event issues a page request there. No step of the component resets a
  stored error to null.
\<close>

theorem failed_fetch:
  assumes "abalonesError r = Some err"
  shows "pagination_substate (fetchAbalones startIndex r st) =
           (if hasMore st then idle else exhausted) \<and>
         abalones (fetchAbalones startIndex r st) = abalones st \<and>
         error (fetchAbalones startIndex r st) =
           Some (error_message err ''Failed to load abalone data'') \<and>
         fetchAbalones_end startIndex r st =
           st\<lparr>error := Some (error_message err ''Failed to load abalone data''),
              loadingMore := False\<rparr> \<and>
         pagination_substate (fetchAbalones_end startIndex r st) =
           (if hasMore st then idle else exhausted) \<and>
         (js_index (inflight s) k = Some (startIndex, b) \<longrightarrow>
            abalones (view (step s (AbalonesResponse k r))) = abalones (view s) \<and>
            error (view (step s (AbalonesResponse k r))) =
              Some (error_message err ''Failed to load abalone data'') \<and>
            pagination_substate (view (step s (AbalonesResponse k r))) =
              (if hasMore (view s) then idle else exhausted)) \<and>
         (error_message err ''Failed to load abalone data'' \<noteq> [] \<longrightarrow>
            shows_error_panel (fetchAbalones startIndex r st) \<and>
            shows_error_panel (fetchAbalones_end startIndex r st)) \<and>
         (shows_error_panel st' \<longrightarrow> (\<forall>ev. ui ev st' = (st', None))) \<and>
         (error (view s') \<noteq> None \<longrightarrow> error (view (step s' e)) \<noteq> None)"
proof -
  note e = fetchAbalones_end_failed [OF assms]
  have 1: "pagination_substate (fetchAbalones startIndex r st) =
      (if hasMore st then idle else exhausted)"
    and 2: "abalones (fetchAbalones startIndex r st) = abalones st"
    and 3: "error (fetchAbalones startIndex r st) =
      Some (error_message err ''Failed to load abalone data'')"
    by (simp_all add: fetchAbalones_def e fetchAbalones_begin_def pagination_substate_def)
  have 4: "pagination_substate (fetchAbalones_end startIndex r st) =
      (if hasMore st then idle else exhausted)"
    by (simp add: e pagination_substate_def)
  have 5: "js_index (inflight s) k = Some (startIndex, b) \<longrightarrow>
            abalones (view (step s (AbalonesResponse k r))) = abalones (view s) \<and>
            error (view (step s (AbalonesResponse k r))) =
              Some (error_message err ''Failed to load abalone data'') \<and>
            pagination_substate (view (step s (AbalonesResponse k r))) =
              (if hasMore (view s) then idle else exhausted)"
    using abalones_arrive_failed [OF _ assms, of s k startIndex b]
    by (simp add: pagination_substate_def)
  have 6: "error_message err ''Failed to load abalone data'' \<noteq> [] \<longrightarrow>
            shows_error_panel (fetchAbalones startIndex r st) \<and>
            shows_error_panel (fetchAbalones_end startIndex r st)"
    by (simp add: fetchAbalones_def e shows_error_panel_def)
  have 7: "shows_error_panel st' \<longrightarrow> (\<forall>ev. ui ev st' = (st', None))"
    by (simp add: ui_error_panel)
  from 1 2 3 4 5 6 7 e step_error_persists [of s' e] show ?thesis by blast
qed

text \<open>
  Witness for C3: the page request at index 1 fails with the message \<^verbatim>\<open>boom\<close> while
  \<^verbatim>\<open>hasMore\<close> is set; in the overlapping run the failing request finds \<^verbatim>\<open>hasMore\<close>
  cleared.
\<close>

theorem failed_fetch_witness:
  "pagination_substate after_failure = idle \<and>
   abalones after_failure = abalones ready_view \<and>
   error after_failure = Some ''boom'' \<and>
   shows_error_panel after_failure \<and>
   ui (MapClick None) after_failure = (after_failure, None) \<and>
   pagination_substate
     (view (step (run (take 3 scenario_late_failure)) (AbalonesResponse 0 failed_page))) =
     exhausted"
proof -
  have e: "abalonesError failed_page = Some (Error ''boom'')" by code_simp
  have h: "hasMore ready_view" by code_simp
  have m: "error_message (Error ''boom'') ''Failed to load abalone data'' = ''boom''" by simp
  have i: "js_index (inflight (run (take 3 scenario_late_failure))) 0 = Some (0, False)"
    by code_simp
  have n: "\<not> hasMore (view (run (take 3 scenario_late_failure)))" by code_simp
  note t = failed_fetch [OF e, of 1 ready_view]
  from t h m have 1: "pagination_substate after_failure = idle \<and>
      abalones after_failure = abalones ready_view \<and>
      error after_failure = Some ''boom'' \<and> shows_error_panel after_failure"
    unfolding after_failure_def by simp
  from failed_fetch [OF e, of _ _ _ _ _ after_failure] 1
  have 2: "ui (MapClick None) after_failure = (after_failure, None)" by blast
  from failed_fetch [OF e, of 0 _ "run (take 3 scenario_late_failure)" 0 False] i n
  have 3: "pagination_substate
     (view (step (run (take 3 scenario_late_failure)) (AbalonesResponse 0 failed_page))) =
     exhausted"
    by simp
  from 1 2 3 show ?thesis by blast
qed

section \<open>The loading flag and the awaited page requests\<close>

lemma handleMapMove_blocked:
  "loadingMore st \<or> \<not> hasMore st \<Longrightarrow> handleMapMove st = (st, None)"
  by (auto simp: handleMapMove_def)

lemma ui_flags:
  "(snd (ui ev st) = None \<and> loadingMore (fst (ui ev st)) = loadingMore st)
   \<or> (\<not> loadingMore st \<and> hasMore st \<and> loadingMore (fst (ui ev st)) \<and>
       snd (ui ev st) = Some (length (abalones st)))"
proof (cases "shows_error_panel st")
  case True
  then show ?thesis by (simp add: ui_def)
next
  case False
  show ?thesis
  proof (cases ev)
    case MoveEnd
    with False show ?thesis by (simp add: ui_def handleMapMove_def fetchAbalones_begin_def)
  next
    case ZoomEnd
    with False show ?thesis by (simp add: ui_def handleMapMove_def fetchAbalones_begin_def)
  next
    case (MapClick fs)
    have "loadingMore (handleMapClick fs st) = loadingMore st"
      by (simp add: handleMapClick_def split: option.splits list.splits sum.splits)
    with False MapClick show ?thesis by (simp add: ui_def)
  next
    case (MarkerClick p)
    with False show ?thesis by (simp add: ui_def marker_onClick_def)
  next
    case PointPopupClose
    with False show ?thesis by (simp add: ui_def point_popup_onClose_def)
  next
    case AbalonePopupClose
    with False show ?thesis by (simp add: ui_def abalone_popup_onClose_def)
  qed
qed

lemma step_UI_flags:
  "(inflight (step s (UI ev)) = inflight s \<and>
      loadingMore (view (step s (UI ev))) = loadingMore (view s))
   \<or> (\<not> loadingMore (view s) \<and> hasMore (view s) \<and> loadingMore (view (step s (UI ev))) \<and>
       inflight (step s (UI ev)) = inflight s @ [(length (abalones (view s)), False)])"
proof -
  obtain st r where u: "ui ev (view s) = (st, r)" by (cases "ui ev (view s)")
  show ?thesis
  proof (cases r)
    case None
    with u ui_flags [of ev "view s"] show ?thesis by simp
  next
    case (Some i)
    with u ui_flags [of ev "view s"] show ?thesis by simp
  qed
qed

lemma abalones_arrive_flags:
  "abalones_arrive k r s = s
   \<or> (k < length (inflight s) \<and> \<not> loadingMore (view (abalones_arrive k r s)) \<and>
       inflight (abalones_arrive k r s) = take k (inflight s) @ drop (Suc k) (inflight s) \<and>
       points_pending (abalones_arrive k r s) = points_pending s)"
proof (cases "js_index (inflight s) k")
  case None
  then show ?thesis by (simp add: abalones_arrive_def)
next
  case (Some x)
  obtain i b where x: "x = (i, b)" by (cases x)
  from Some have "k < length (inflight s)" by (rule js_index_Some)
  with Some x show ?thesis
    by (simp add: abalones_arrive_def fetchAbalones_end_def Let_def)
qed

lemma fetchData_points_flags:
  "(inflight (fetchData_points r s) = inflight s \<and>
      loadingMore (view (fetchData_points r s)) = loadingMore (view s)
    \<or> inflight (fetchData_points r s) = inflight s @ [(0, True)] \<and>
      loadingMore (view (fetchData_points r s)))
   \<and> \<not> points_pending (fetchData_points r s)"
  by (cases "pointsError r") (simp_all add: fetchData_points_def fetchAbalones_begin_def)

lemma fetchAbalones_end_loadingMore: "loadingMore (fetchAbalones_end i r st) = False"
  by (simp add: fetchAbalones_end_def Let_def split: option.splits)

lemma abalones_arrive_answered:
  assumes "k < length (inflight s)"
  shows "loadingMore (view (abalones_arrive k r s)) = False"
proof -
  from assms have "js_index (inflight s) k \<noteq> None" by (simp add: js_index_None)
  then obtain i b where "js_index (inflight s) k = Some (i, b)" by auto
  then show ?thesis
    by (simp add: abalones_arrive_def fetchAbalones_end_loadingMore Let_def)
qed

lemma step_loadingMore_inflight:
  assumes "loadingMore (view s) \<longrightarrow> inflight s \<noteq> []"
  shows "loadingMore (view (step s e)) \<longrightarrow> inflight (step s e) \<noteq> []"
proof (cases e)
  case (UI ev)
  with step_UI_flags [of s ev] assms show ?thesis by auto
next
  case (PointsResponse r)
  with fetchData_points_flags [of r s] assms show ?thesis by auto
next
  case (AbalonesResponse k r)
  with abalones_arrive_flags [of k r s] assms show ?thesis by auto
next
  case (Notification p)
  with assms show ?thesis by simp
qed

lemma reachable_loadingMore_inflight:
  "reachable s \<Longrightarrow> loadingMore (view s) \<longrightarrow> inflight s \<noteq> []"
proof (induction rule: reachable.induct)
  case reachable_initial
  show ?case by (simp add: initial_system_def initial_view_def)
next
  case (reachable_step s e)
  from reachable_step.IH show ?case by (rule step_loadingMore_inflight)
qed

text \<open>
  Claim C10. Every execution of \<^verbatim>\<open>fetchAbalones\<close>, whatever the query resolves to,
  ends with \<^verbatim>\<open>loadingMore\<close> false, so the sub-state is not fetching afterwards and
  \<^verbatim>\<open>handleMapMove\<close> then issues a request exactly when \<^verbatim>\<open>hasMore\<close> holds. In the
  transition system, the answer to any awaited page request clears the flag, and in every
  reachable state in which the flag is set some page request is still awaited: the guard
  is never closed with nothing left to open it.
\<close>

theorem fetch_ends_not_loading:
  "loadingMore (fetchAbalones startIndex r st) = False \<and>
   loadingMore (fetchAbalones_end startIndex r st) = False \<and>
   pagination_substate (fetchAbalones startIndex r st) \<noteq> fetching \<and>
   snd (handleMapMove (fetchAbalones startIndex r st)) =
     (if hasMore (fetchAbalones startIndex r st)
      then Some (length (abalones (fetchAbalones startIndex r st))) else None) \<and>
   (k < length (inflight s) \<longrightarrow> loadingMore (view (step s (AbalonesResponse k r))) = False) \<and>
   (reachable s \<and> loadingMore (view s) \<longrightarrow> inflight s \<noteq> [])"
proof -
  have a: "loadingMore (fetchAbalones startIndex r st) = False"
    by (simp add: fetchAbalones_def fetchAbalones_end_loadingMore)
  then have b: "pagination_substate (fetchAbalones startIndex r st) \<noteq> fetching"
    by (simp add: pagination_substate_def)
  from a have c: "snd (handleMapMove (fetchAbalones startIndex r st)) =
     (if hasMore (fetchAbalones startIndex r st)
      then Some (length (abalones (fetchAbalones startIndex r st))) else None)"
    by (simp add: handleMapMove_def)
  have d: "k < length (inflight s) \<longrightarrow> loadingMore (view (step s (AbalonesResponse k r))) = False"
    using abalones_arrive_answered [of k s r] by simp
  from a b c d fetchAbalones_end_loadingMore [of startIndex r st]
    reachable_loadingMore_inflight [of s]
  show ?thesis by blast
qed

text \<open>
  Witness for C10: after the points query is answered the first page is awaited and the
  flag is set; the failure of that request clears the flag.
\<close>

theorem fetch_ends_not_loading_witness:
  "loadingMore (view (step (run scenario_first_page) (AbalonesResponse 0 failed_page))) = False \<and>
   loadingMore (view (run scenario_first_page)) \<and>
   inflight (run scenario_first_page) \<noteq> []"
proof -
  have k: "0 < length (inflight (run scenario_first_page))" by code_simp
  have l: "loadingMore (view (run scenario_first_page))" by code_simp
  from fetch_ends_not_loading [of _ failed_page _ 0 "run scenario_first_page"] k
  have 1: "loadingMore (view (step (run scenario_first_page) (AbalonesResponse 0 failed_page))) = False"
    by blast
  from fetch_ends_not_loading [of _ _ _ _ "run scenario_first_page"] l reachable_run [of scenario_first_page]
  have 2: "inflight (run scenario_first_page) \<noteq> []" by blast
  from 1 2 l show ?thesis by blast
qed

text \<open>
  Claim C6 fails on the code in its last part. A viewport move while \<^verbatim>\<open>fetchData\<close>
  awaits the points query issues the page request at index 0; when the points query is
  answered, \<^verbatim>\<open>fetchData\<close> calls \<^verbatim>\<open>fetchAbalones(0)\<close> without testing the flags. In
  this reachable state two page requests are in flight.
\<close>

theorem overlapping_fetches:
  "reachable (run scenario_overlap) \<and>
   inflight (run scenario_overlap) = [(0, False), (0, True)]"
proof -
  have "inflight (run scenario_overlap) = [(0, False), (0, True)]" by code_simp
  with reachable_run [of scenario_overlap] show ?thesis by simp
qed

section \<open>Selection\<close>

lemma handleMapClick_found:
  assumes "find (\<lambda>a. gid a = properties_gid f) (abalones st) = Some a"
    and "geom a = Some g"
  shows "\<exists>c. getMultiPolygonCenter g = Inr c \<and>
           handleMapClick (Some (f # fs)) st =
             st\<lparr>selectedAbalone := Some a, selectedCoordinates := Some c, selectedPoint := None\<rparr>"
proof -
  obtain c where c: "getMultiPolygonCenter g = Inr c"
    using center_total by blast
  then show ?thesis using assms by (simp add: handleMapClick_def)
qed

lemma handleMapClick_null_geom:
  assumes "find (\<lambda>a. gid a = properties_gid f) (abalones st) = Some a"
    and "geom a = None"
  shows "handleMapClick (Some (f # fs)) st = st"
  using assms by (simp add: handleMapClick_def)

lemma handleMapClick_not_found:
  assumes "find (\<lambda>a. gid a = properties_gid f) (abalones st) = None"
  shows "handleMapClick (Some (f # fs)) st = st"
  using assms by (simp add: handleMapClick_def)

lemma handleMapClick_selection:
  "(selectedPoint (handleMapClick fs st) = selectedPoint st \<and>
      selectedAbalone (handleMapClick fs st) = selectedAbalone st)
   \<or> selectedPoint (handleMapClick fs st) = None
   \<or> selectedAbalone (handleMapClick fs st) = None"
proof (cases fs)
  case None
  then show ?thesis by (simp add: handleMapClick_def)
next
  case (Some l)
  show ?thesis
  proof (cases l)
    case Nil
    with Some show ?thesis by (simp add: handleMapClick_def)
  next
    case (Cons f rest)
    show ?thesis
    proof (cases "find (\<lambda>a. gid a = properties_gid f) (abalones st)")
      case None
      with \<open>fs = Some l\<close> Cons show ?thesis by (simp add: handleMapClick_def)
    next
      case found: (Some a)
      show ?thesis
      proof (cases "geom a")
        case None
        from handleMapClick_null_geom [OF found None, of rest] \<open>fs = Some l\<close> Cons
        show ?thesis by simp
      next
        case (Some g)
        from handleMapClick_found [OF found Some, of rest] obtain c where
          "handleMapClick (Some (f # rest)) st =
             st\<lparr>selectedAbalone := Some a, selectedCoordinates := Some c,
                selectedPoint := None\<rparr>"
          by blast
        with \<open>fs = Some l\<close> Cons show ?thesis by simp
      qed
    qed
  qed
qed

lemma ui_selection:
  "(selectedPoint (fst (ui ev st)) = selectedPoint st \<and>
      selectedAbalone (fst (ui ev st)) = selectedAbalone st)
   \<or> selectedPoint (fst (ui ev st)) = None
   \<or> selectedAbalone (fst (ui ev st)) = None"
proof (cases "shows_error_panel st")
  case True
  then show ?thesis by (simp add: ui_def)
next
  case False
  show ?thesis
  proof (cases ev)
    case MoveEnd
    with False show ?thesis by (simp add: ui_def handleMapMove_def fetchAbalones_begin_def)
  next
    case ZoomEnd
    with False show ?thesis by (simp add: ui_def handleMapMove_def fetchAbalones_begin_def)
  next
    case (MapClick fs)
    with False handleMapClick_selection [of fs st] show ?thesis by (simp add: ui_def)
  next
    case (MarkerClick p)
    with False show ?thesis by (simp add: ui_def marker_onClick_def)
  next
    case PointPopupClose
    with False show ?thesis by (simp add: ui_def point_popup_onClose_def)
  next
    case AbalonePopupClose
    with False show ?thesis by (simp add: ui_def abalone_popup_onClose_def)
  qed
qed

lemma step_selection:
  "(selectedPoint (view (step s e)) = selectedPoint (view s) \<and>
      selectedAbalone (view (step s e)) = selectedAbalone (view s))
   \<or> selectedPoint (view (step s e)) = None
   \<or> selectedAbalone (view (step s e)) = None"
proof (cases e)
  case (UI ev)
  obtain st r where u: "ui ev (view s) = (st, r)" by (cases "ui ev (view s)")
  have "view (step s e) = st" using UI u by (cases r) simp_all
  with ui_selection [of ev "view s"] u show ?thesis by simp
next
  case (PointsResponse r)
  then show ?thesis
    by (simp add: fetchData_points_def fetchAbalones_begin_def split: option.splits)
next
  case (AbalonesResponse k r)
  then show ?thesis
    by (simp add: abalones_arrive_def fetchAbalones_end_def Let_def split: option.splits)
next
  case (Notification p)
  then show ?thesis by simp
qed

lemma reachable_one_selection: "reachable s \<Longrightarrow> one_selection (view s)"
proof (induction rule: reachable.induct)
  case reachable_initial
  show ?case by (simp add: one_selection_def initial_system_def initial_view_def)
next
  case (reachable_step s e)
  with step_selection [of s e] show ?case by (auto simp: one_selection_def)
qed

lemma changed_selection_clears_other:
  assumes "(p' = p \<and> a' = a) \<or> p' = None \<or> a' = None"
  shows "(p' \<noteq> None \<and> p' \<noteq> p \<longrightarrow> a' = None) \<and> (a' \<noteq> None \<and> a' \<noteq> a \<longrightarrow> p' = None)"
  using assms by blast

text \<open>
  Claim C5. In every reachable state a point and a polygon are not selected together.
  Every step that leaves a point selected that was not selected before leaves no polygon
  selected, and every step that leaves a polygon selected that was not selected before
  leaves no point selected. A click on a marker selects its point and clears the polygon
  selection.
\<close>

theorem at_most_one_selection:
  "(reachable s \<longrightarrow> one_selection (view s)) \<and>
   (selectedPoint (view (step s e)) \<noteq> None \<and>
      selectedPoint (view (step s e)) \<noteq> selectedPoint (view s)
        \<longrightarrow> selectedAbalone (view (step s e)) = None) \<and>
   (selectedAbalone (view (step s e)) \<noteq> None \<and>
      selectedAbalone (view (step s e)) \<noteq> selectedAbalone (view s)
        \<longrightarrow> selectedPoint (view (step s e)) = None) \<and>
   selectedPoint (marker_onClick p st) = Some p \<and>
   selectedAbalone (marker_onClick p st) = None"
proof -
  have inv: "reachable s \<longrightarrow> one_selection (view s)"
    using reachable_one_selection by blast
  note ch = changed_selection_clears_other [OF step_selection [of s e]]
  have m: "selectedPoint (marker_onClick p st) = Some p \<and>
      selectedAbalone (marker_onClick p st) = None"
    by (simp add: marker_onClick_def)
  from inv ch m show ?thesis by blast
qed

text \<open>
  Witness for C5: the point \<^verbatim>\<open>p1\<close> is selected, then the polygon with gid 42 is clicked;
  only the polygon is selected afterwards.
\<close>

theorem at_most_one_selection_witness:
  "reachable (run (scenario_point_selected @ [click_polygon_42])) \<and>
   one_selection (view (run (scenario_point_selected @ [click_polygon_42]))) \<and>
   selectedPoint (view (run scenario_point_selected)) = Some pier \<and>
   selectedAbalone (view (run (scenario_point_selected @ [click_polygon_42]))) = Some abalone42 \<and>
   selectedPoint (view (run (scenario_point_selected @ [click_polygon_42]))) = None"
proof -
  let ?s = "run scenario_point_selected"
  have r: "reachable (step ?s click_polygon_42)"
    using reachable_run [of "scenario_point_selected @ [click_polygon_42]"]
    by (simp only: run_snoc)
  have b: "selectedPoint (view ?s) = Some pier"
    by code_simp
  have b2: "selectedAbalone (view ?s) = None"
    by code_simp
  have a: "selectedAbalone (view (step ?s click_polygon_42)) = Some abalone42"
    by code_simp
  from at_most_one_selection [of "step ?s click_polygon_42"] r
  have one: "one_selection (view (step ?s click_polygon_42))" by blast
  from at_most_one_selection [of ?s click_polygon_42] a b2
  have "selectedPoint (view (step ?s click_polygon_42)) = None" by simp
  with r one b a show ?thesis by (simp only: run_snoc simp_thms)
qed

text \<open>
  Claim C9 as stated fails for a record whose geometry is null. The point \<^verbatim>\<open>p1\<close> is
  selected and the collection holds a record with gid 77 and a null geometry. A click on
  a feature with gid 77 changes nothing: no polygon is selected and the point stays
  selected, where the claim asks for the polygon selection to be set and the point
  selection to be cleared.
\<close>

theorem null_geometry_counterexample:
  "properties_gid (clicked 77) \<in> gid ` set (abalones pier_selected_null_geom) \<and>
   handleMapClick (Some [clicked 77]) pier_selected_null_geom = pier_selected_null_geom \<and>
   selectedAbalone (handleMapClick (Some [clicked 77]) pier_selected_null_geom) = None \<and>
   selectedPoint (handleMapClick (Some [clicked 77]) pier_selected_null_geom) = Some pier"
  by code_simp

text \<open>
  Claim C9, amended. A click on a feature whose gid is not in the polygon collection
  leaves the whole view state, and so the selection, unchanged. For a gid that is in the
  collection the first record with that gid decides: if its geometry is null, the view
  state is unchanged as well; if it has a geometry, the click selects that record, sets
  the coordinates to the position \<^verbatim>\<open>getMultiPolygonCenter\<close> returns for the geometry, and
  clears the point selection.
\<close>

theorem select_polygon:
  "(properties_gid f \<notin> gid ` set (abalones st)
      \<longrightarrow> handleMapClick (Some (f # fs)) st = st) \<and>
   (properties_gid f \<in> gid ` set (abalones st)
      \<longrightarrow> (\<exists>a. find (\<lambda>a. gid a = properties_gid f) (abalones st) = Some a \<and>
               a \<in> set (abalones st) \<and> gid a = properties_gid f \<and>
               (geom a = None \<longrightarrow> handleMapClick (Some (f # fs)) st = st) \<and>
               (\<forall>g. geom a = Some g \<longrightarrow>
                  (\<exists>c. getMultiPolygonCenter g = Inr c \<and>
                       handleMapClick (Some (f # fs)) st =
                         st\<lparr>selectedAbalone := Some a, selectedCoordinates := Some c,
                            selectedPoint := None\<rparr>))))"
proof (intro conjI impI)
  assume "properties_gid f \<notin> gid ` set (abalones st)"
  then have "find (\<lambda>a. gid a = properties_gid f) (abalones st) = None"
    unfolding find_None_iff by (metis imageI)
  then show "handleMapClick (Some (f # fs)) st = st"
    by (rule handleMapClick_not_found)
next
  assume "properties_gid f \<in> gid ` set (abalones st)"
  then have "find (\<lambda>a. gid a = properties_gid f) (abalones st) \<noteq> None"
    unfolding find_None_iff by auto
  then obtain a where a: "find (\<lambda>a. gid a = properties_gid f) (abalones st) = Some a"
    by blast
  then have mem: "a \<in> set (abalones st)" and g: "gid a = properties_gid f"
    by (auto simp: find_Some_iff in_set_conv_nth)
  have n: "geom a = None \<longrightarrow> handleMapClick (Some (f # fs)) st = st"
    using handleMapClick_null_geom [OF a, of fs] by blast
  have s: "\<forall>g. geom a = Some g \<longrightarrow>
      (\<exists>c. getMultiPolygonCenter g = Inr c \<and>
           handleMapClick (Some (f # fs)) st =
             st\<lparr>selectedAbalone := Some a, selectedCoordinates := Some c,
                selectedPoint := None\<rparr>)"
    using handleMapClick_found [OF a, of _ fs] by blast
  show "\<exists>a. find (\<lambda>a. gid a = properties_gid f) (abalones st) = Some a \<and>
               a \<in> set (abalones st) \<and> gid a = properties_gid f \<and>
               (geom a = None \<longrightarrow> handleMapClick (Some (f # fs)) st = st) \<and>
               (\<forall>g. geom a = Some g \<longrightarrow>
                  (\<exists>c. getMultiPolygonCenter g = Inr c \<and>
                       handleMapClick (Some (f # fs)) st =
                         st\<lparr>selectedAbalone := Some a, selectedCoordinates := Some c,
                            selectedPoint := None\<rparr>))"
  proof (intro exI conjI)
    show "find (\<lambda>a. gid a = properties_gid f) (abalones st) = Some a" by (fact a)
    show "a \<in> set (abalones st)" by (fact mem)
    show "gid a = properties_gid f" by (fact g)
    show "geom a = None \<longrightarrow> handleMapClick (Some (f # fs)) st = st" by (fact n)
    show "\<forall>g. geom a = Some g \<longrightarrow>
      (\<exists>c. getMultiPolygonCenter g = Inr c \<and>
           handleMapClick (Some (f # fs)) st =
             st\<lparr>selectedAbalone := Some a, selectedCoordinates := Some c,
                selectedPoint := None\<rparr>)" by (fact s)
  qed
qed

text \<open>
  Witness for C9: with the pier selected, a click on gid 7 (not loaded) changes nothing,
  a click on gid 77 (null geometry) changes nothing, and a click on gid 42 selects that
  polygon at the center of its geometry and clears the point selection.
\<close>

theorem select_polygon_witness:
  "handleMapClick (Some [clicked 7]) pier_selected_null_geom = pier_selected_null_geom \<and>
   handleMapClick (Some [clicked 77]) pier_selected_null_geom = pier_selected_null_geom \<and>
   handleMapClick (Some [clicked 42]) pier_selected_null_geom =
     pier_selected_null_geom\<lparr>selectedAbalone := Some abalone42,
       selectedCoordinates := Some (Num 3, Num (6004799503160661 / 9007199254740992)),
       selectedPoint := None\<rparr>"
proof -
  let ?st = pier_selected_null_geom
  have n: "properties_gid (clicked 7) \<notin> gid ` set (abalones ?st)" by code_simp
  have y42: "properties_gid (clicked 42) \<in> gid ` set (abalones ?st)" by code_simp
  have y77: "properties_gid (clicked 77) \<in> gid ` set (abalones ?st)" by code_simp
  have f42: "find (\<lambda>a. gid a = properties_gid (clicked 42)) (abalones ?st) = Some abalone42"
    by code_simp
  have f77: "find (\<lambda>a. gid a = properties_gid (clicked 77)) (abalones ?st) = Some abalone77"
    by code_simp
  have g42: "geom abalone42 = Some two_triangles" by code_simp
  have g77: "geom abalone77 = None" by code_simp
  have c: "getMultiPolygonCenter two_triangles =
      Inr (Num 3, Num (6004799503160661 / 9007199254740992))"
    by code_simp
  from select_polygon [of "clicked 7" ?st "[]"] n
  have 1: "handleMapClick (Some [clicked 7]) ?st = ?st" by blast
  from select_polygon [of "clicked 77" ?st "[]"] y77 f77 g77
  have 2: "handleMapClick (Some [clicked 77]) ?st = ?st" by (metis option.inject)
  from select_polygon [of "clicked 42" ?st "[]"] y42 f42 g42
  obtain c' where "getMultiPolygonCenter two_triangles = Inr c'"
    and "handleMapClick (Some [clicked 42]) ?st =
           ?st\<lparr>selectedAbalone := Some abalone42, selectedCoordinates := Some c',
                selectedPoint := None\<rparr>"
    by (metis option.inject)
  with c 1 2 show ?thesis by (simp only: option.inject sum.inject simp_thms)
qed

end
